theory Spec2Isabelle
  imports Complex_Main
begin

section \<open>Python values used by \<open>main.py\<close>\<close>

text \<open>
  Strings are lists of characters. The model reads a string as ASCII text: the
  whitespace of \<open>str.split()\<close> and \<open>str.strip()\<close> is Python's whitespace below code
  point 128 (9 to 13, 28 to 31 and 32), the whitespace that \<open>int()\<close> and \<open>float()\<close>
  skip at both ends of an ASCII string is 9 to 13 and 32 only, and digits are \<open>0\<close> to
  \<open>9\<close>.
\<close>

datatype exn = ValueError | IndexError | AttributeError | PlaywrightError | OSError

definition is_space :: "char \<Rightarrow> bool" where
  "is_space c = (let n = (of_char c :: nat) in (9 \<le> n \<and> n \<le> 13) \<or> (28 \<le> n \<and> n \<le> 32))"

definition is_digit :: "char \<Rightarrow> bool" where
  "is_digit c = (let n = (of_char c :: nat) in 48 \<le> n \<and> n \<le> 57)"

definition digit_val :: "char \<Rightarrow> nat" where
  "digit_val c = of_char c - 48"

definition digits_val :: "string \<Rightarrow> nat" where
  "digits_val ds = foldl (\<lambda>a c. 10 * a + digit_val c) 0 ds"

definition lower :: "char \<Rightarrow> char" where
  "lower c = (let n = (of_char c :: nat) in if 65 \<le> n \<and> n \<le> 90 then char_of (n + 32) else c)"

text \<open>\<open>s.strip()\<close>: whitespace removed at both ends.\<close>

definition py_strip :: "string \<Rightarrow> string" where
  "py_strip s = rev (dropWhile is_space (rev (dropWhile is_space s)))"

text \<open>
  \<open>s.split(sep)\<close> for a non-empty separator: a left-to-right scan that cuts at every
  occurrence found, so that \<open>n\<close> occurrences give \<open>n + 1\<close> pieces (some possibly
  empty). \<open>acc\<close> is the piece being read. Python raises on an empty separator; the
  source never passes one, and the model then returns the string whole.
\<close>

function py_split_from :: "string \<Rightarrow> string \<Rightarrow> string \<Rightarrow> string list" where
  "py_split_from sep acc s =
     (if s = [] then [acc]
      else if sep \<noteq> [] \<and> take (length sep) s = sep
        then acc # py_split_from sep [] (drop (length sep) s)
      else py_split_from sep (acc @ [hd s]) (tl s))"
  by pat_completeness auto
termination
  by (relation "measure (\<lambda>(sep, acc, s). length s)") auto

declare py_split_from.simps [simp del]

definition py_split :: "string \<Rightarrow> string \<Rightarrow> string list" where
  "py_split sep s = py_split_from sep [] s"

text \<open>\<open>s.split()\<close>: the maximal runs of non-whitespace characters.\<close>

fun py_split_ws_from :: "string \<Rightarrow> string \<Rightarrow> string list" where
  "py_split_ws_from acc [] = (if acc = [] then [] else [acc])"
| "py_split_ws_from acc (c # cs) =
     (if is_space c then (if acc = [] then [] else [acc]) @ py_split_ws_from [] cs
      else py_split_ws_from (acc @ [c]) cs)"

definition py_split_ws :: "string \<Rightarrow> string list" where
  "py_split_ws s = py_split_ws_from [] s"

text \<open>\<open>s.replace(old, new)\<close> for a one-character \<open>old\<close>, as every call of the source has it.\<close>

definition py_replace :: "char \<Rightarrow> string \<Rightarrow> string \<Rightarrow> string" where
  "py_replace old new s = concat (map (\<lambda>c. if c = old then new else [c]) s)"

text \<open>\<open>xs[i]\<close> for a non-negative literal index: IndexError out of range.\<close>

definition py_index :: "'a list \<Rightarrow> nat \<Rightarrow> exn + 'a" where
  "py_index xs i = (if i < length xs then Inr (xs ! i) else Inl IndexError)"

text \<open>\<open>xs[:n]\<close>: a negative \<open>n\<close> counts from the end.\<close>

definition py_slice_to :: "int \<Rightarrow> 'a list \<Rightarrow> 'a list" where
  "py_slice_to n xs = (if 0 \<le> n then take (nat n) xs else take (length xs - nat (- n)) xs)"

text \<open>\<open>x or ""\<close> on an optional string.\<close>

definition or_empty :: "string option \<Rightarrow> string" where
  "or_empty x = (case x of None \<Rightarrow> [] | Some s \<Rightarrow> (if s = [] then [] else s))"

subsection \<open>\<open>int()\<close> and \<open>float()\<close> on strings\<close>

text \<open>
  Both strip whitespace, then accept underscores only between two digits. \<open>prev\<close>
  is the character before the one being read.
\<close>

definition is_c_space :: "char \<Rightarrow> bool" where
  "is_c_space c = (let n = (of_char c :: nat) in (9 \<le> n \<and> n \<le> 13) \<or> n = 32)"

definition c_strip :: "string \<Rightarrow> string" where
  "c_strip s = rev (dropWhile is_c_space (rev (dropWhile is_c_space s)))"

fun underscores_ok :: "char option \<Rightarrow> string \<Rightarrow> bool" where
  "underscores_ok prev [] = True"
| "underscores_ok prev (c # cs) =
     (if c = CHR ''_''
      then (case prev of None \<Rightarrow> False | Some p \<Rightarrow> is_digit p) \<and>
           (case cs of [] \<Rightarrow> False | d # _ \<Rightarrow> is_digit d) \<and> underscores_ok (Some c) cs
      else underscores_ok (Some c) cs)"

definition split_sign :: "string \<Rightarrow> bool \<times> string" where
  "split_sign s =
     (case s of
        [] \<Rightarrow> (False, [])
      | c # cs \<Rightarrow> if c = CHR ''-'' then (True, cs) else if c = CHR ''+'' then (False, cs) else (False, s))"

definition py_int :: "string \<Rightarrow> int option" where
  "py_int s =
     (let t = c_strip s in
      if \<not> underscores_ok None t then None
      else
        (let (neg, ds) = split_sign (filter (\<lambda>c. c \<noteq> CHR ''_'') t) in
         if ds \<noteq> [] \<and> list_all is_digit ds
         then Some (if neg then - int (digits_val ds) else int (digits_val ds))
         else None))"

text \<open>
  A float is the exact rational its literal denotes, an infinity (negative when the
  flag is set) or not-a-number. Rounding to binary64, overflow and the sign of zero
  are outside the model.
\<close>

datatype pyfloat = Finite rat | Infinity bool | NaN

definition parse_exponent :: "string \<Rightarrow> int option" where
  "parse_exponent s =
     (case s of
        [] \<Rightarrow> Some 0
      | c # r \<Rightarrow>
          if c = CHR ''e'' \<or> c = CHR ''E''
          then (let (neg, ds) = split_sign r in
                if ds \<noteq> [] \<and> list_all is_digit ds
                then Some (if neg then - int (digits_val ds) else int (digits_val ds))
                else None)
          else None)"

definition scale10 :: "nat \<Rightarrow> int \<Rightarrow> rat" where
  "scale10 m e = (if 0 \<le> e then of_nat m * 10 ^ nat e else of_nat m / 10 ^ nat (- e))"

definition parse_number :: "string \<Rightarrow> rat option" where
  "parse_number u =
     (let ip = takeWhile is_digit u;
          r1 = dropWhile is_digit u;
          fp = (case r1 of [] \<Rightarrow> [] | c # r \<Rightarrow> if c = CHR ''.'' then takeWhile is_digit r else []);
          r2 = (case r1 of [] \<Rightarrow> [] | c # r \<Rightarrow> if c = CHR ''.'' then dropWhile is_digit r else r1)
      in if ip = [] \<and> fp = [] then None
         else (case parse_exponent r2 of
                 None \<Rightarrow> None
               | Some e \<Rightarrow> Some (scale10 (digits_val (ip @ fp)) (e - int (length fp)))))"

definition parse_abs :: "string \<Rightarrow> pyfloat option" where
  "parse_abs u =
     (let l = map lower u in
      if l = ''inf'' \<or> l = ''infinity'' then Some (Infinity False)
      else if l = ''nan'' then Some NaN
      else map_option Finite (parse_number u))"

fun negate :: "pyfloat \<Rightarrow> pyfloat" where
  "negate (Finite r) = Finite (- r)"
| "negate (Infinity b) = Infinity (\<not> b)"
| "negate NaN = NaN"

definition py_float :: "string \<Rightarrow> pyfloat option" where
  "py_float s =
     (let t = c_strip s in
      if \<not> underscores_ok None t then None
      else
        (let (neg, u) = split_sign (filter (\<lambda>c. c \<noteq> CHR ''_'') t) in
         map_option (if neg then negate else id) (parse_abs u)))"

section \<open>Coordinate parser\<close>

text \<open>
  \<open>extract_coordinates_from_url\<close>: the last piece of the URL split at \<open>/@\<close>, up to
  its first \<open>/\<close>, split at commas. The tuple is built left to right: \<open>float\<close> of token
  0 (ValueError), token 1 itself (IndexError), \<open>float\<close> of token 1 (ValueError).
\<close>

definition coordinates_of :: "string \<Rightarrow> string" where
  "coordinates_of url = hd (py_split ''/'' (last (py_split ''/@'' url)))"

definition to_float :: "string \<Rightarrow> exn + pyfloat" where
  "to_float s = (case py_float s of None \<Rightarrow> Inl ValueError | Some f \<Rightarrow> Inr f)"

definition extract_coordinates_from_url :: "string \<Rightarrow> exn + (pyfloat \<times> pyfloat)" where
  "extract_coordinates_from_url url =
     (let coordinates = coordinates_of url in
      case py_index (py_split '','' coordinates) 0 of
        Inl e \<Rightarrow> Inl e
      | Inr t0 \<Rightarrow>
          (case to_float t0 of
             Inl e \<Rightarrow> Inl e
           | Inr la \<Rightarrow>
               (case py_index (py_split '','' coordinates) 1 of
                  Inl e \<Rightarrow> Inl e
                | Inr t1 \<Rightarrow>
                    (case to_float t1 of
                       Inl e \<Rightarrow> Inl e
                     | Inr lo \<Rightarrow> Inr (la, lo)))))"

section \<open>Business records and the browser\<close>

text \<open>The dataclass \<open>Business\<close>: every field defaults to \<open>None\<close>.\<close>

record business =
  name :: "string option"
  address :: "string option"
  website :: "string option"
  phone_number :: "string option"
  reviews_count :: "int option"
  reviews_average :: "pyfloat option"
  latitude :: "pyfloat option"
  longitude :: "pyfloat option"

text \<open>
  A locator is a matched place link or the parent of a locator
  (\<open>listing.locator("xpath=..")\<close>).
\<close>

datatype 'e locator = Anchor 'e | Parent "'e locator"

text \<open>
  The browser is outside the program. What it answers while one listing is scraped is
  a \<open>detail_view\<close>: one field for each call of the \<open>try\<close> block, in the order of
  the calls. A call that raises answers \<open>Inl\<close> (\<open>Some\<close> for a call without a
  result); \<open>text_content\<close> and \<open>get_attribute\<close> return an optional string.
\<close>

record detail_view =
  click :: "exn option"
  settle :: "exn option"
  aria_label :: "exn + string option"
  address_text :: "exn + string option"
  website_text :: "exn + string option"
  phone_text :: "exn + string option"
  reviews_span_count :: "exn + nat"
  reviews_span_text :: "exn + string option"
  rating_img_count :: "exn + nat"
  rating_img_label :: "exn + string option"
  url :: string

definition and_then :: "exn + 'a \<Rightarrow> ('a \<Rightarrow> exn + 'b) \<Rightarrow> exn + 'b" where
  "and_then m f = (case m of Inl e \<Rightarrow> Inl e | Inr x \<Rightarrow> f x)"

definition returned :: "exn option \<Rightarrow> exn + unit" where
  "returned r = (case r of None \<Rightarrow> Inr () | Some e \<Rightarrow> Inl e)"

text \<open>A method call on the result of \<open>text_content()\<close> or \<open>get_attribute()\<close>: AttributeError on \<open>None\<close>.\<close>

definition deref :: "string option \<Rightarrow> exn + string" where
  "deref x = (case x of None \<Rightarrow> Inl AttributeError | Some s \<Rightarrow> Inr s)"

definition to_int :: "string \<Rightarrow> exn + int" where
  "to_int s = (case py_int s of None \<Rightarrow> Inl ValueError | Some n \<Rightarrow> Inr n)"

section \<open>Field extractor\<close>

text \<open>
  \<open>int(loc.text_content().split()[0].replace(',', '')) if loc.count() > 0 else None\<close>
\<close>

definition reviews_count_of :: "detail_view \<Rightarrow> exn + int option" where
  "reviews_count_of v =
     and_then (reviews_span_count v) (\<lambda>n.
       if 0 < n then
         and_then (reviews_span_text v) (\<lambda>t.
         and_then (deref t) (\<lambda>s.
         and_then (py_index (py_split_ws s) 0) (\<lambda>tok.
         and_then (to_int (py_replace (CHR '','') [] tok)) (\<lambda>i. Inr (Some i)))))
       else Inr None)"

text \<open>
  \<open>float(loc.get_attribute('aria-label').split()[0].replace(',', '.')) if loc.count() > 0 else None\<close>
\<close>

definition reviews_average_of :: "detail_view \<Rightarrow> exn + pyfloat option" where
  "reviews_average_of v =
     and_then (rating_img_count v) (\<lambda>n.
       if 0 < n then
         and_then (rating_img_label v) (\<lambda>t.
         and_then (deref t) (\<lambda>s.
         and_then (py_index (py_split_ws s) 0) (\<lambda>tok.
         and_then (to_float (py_replace (CHR '','') ''.'' tok)) (\<lambda>f. Inr (Some f)))))
       else Inr None)"

text \<open>
  The body of the \<open>try\<close>: click, wait, build the \<open>Business\<close> (keyword arguments are
  evaluated in the order written, coordinates \<open>None\<close>), then assign both coordinates
  from one call of \<open>extract_coordinates_from_url\<close>. The first exception ends it.
\<close>

definition scrape_listing :: "detail_view \<Rightarrow> exn + business" where
  "scrape_listing v =
     and_then (returned (click v)) (\<lambda>_.
     and_then (returned (settle v)) (\<lambda>_.
     and_then (aria_label v) (\<lambda>n.
     and_then (address_text v) (\<lambda>a.
     and_then (website_text v) (\<lambda>w.
     and_then (phone_text v) (\<lambda>p.
     and_then (reviews_count_of v) (\<lambda>rc.
     and_then (reviews_average_of v) (\<lambda>ra.
       (let b = \<lparr>name = Some (or_empty n), address = Some (or_empty a),
                  website = Some (or_empty w), phone_number = Some (or_empty p),
                  reviews_count = rc, reviews_average = ra,
                  latitude = None, longitude = None\<rparr>
        in and_then (extract_coordinates_from_url (url v)) (\<lambda>(la, lo).
             Inr (b\<lparr>latitude := Some la, longitude := Some lo\<rparr>)))))))))))"

section \<open>Record collector\<close>

text \<open>
  The \<open>for listing in listings\<close> loop: a record is appended when the body returns; an
  exception is caught and printed and the loop goes on. \<open>view\<close> gives the browser's
  answers for each listing.
\<close>

record scrape_state =
  business_list :: "business list"
  errors_printed :: "exn list"

definition scrape_step :: "detail_view \<Rightarrow> scrape_state \<Rightarrow> scrape_state" where
  "scrape_step v st =
     (case scrape_listing v of
        Inr b \<Rightarrow> st\<lparr>business_list := business_list st @ [b]\<rparr>
      | Inl e \<Rightarrow> st\<lparr>errors_printed := errors_printed st @ [e]\<rparr>)"

fun scrape_listings :: "('e locator \<Rightarrow> detail_view) \<Rightarrow> 'e locator list \<Rightarrow> scrape_state \<Rightarrow> scrape_state" where
  "scrape_listings view [] st = st"
| "scrape_listings view (l # ls) st = scrape_listings view ls (scrape_step (view l) st)"

definition new_business_list :: scrape_state where
  "new_business_list = \<lparr>business_list = [], errors_printed = []\<rparr>"

section \<open>Listing discovery loop\<close>

text \<open>
  The \<open>while True\<close> loop. Each iteration scrolls, waits and looks at the panel: a
  panel is the list of place links matched at that moment, \<open>count()\<close> its length and
  \<open>all()\<close> its elements. The panels of the successive iterations are the loop's
  input; the result is \<open>None\<close> when they run out before the loop has broken.
\<close>

fun discover_listings :: "int \<Rightarrow> int \<Rightarrow> 'e list list \<Rightarrow> 'e locator list option" where
  "discover_listings total' previously_counted [] = None"
| "discover_listings total' previously_counted (panel # panels) =
     (let count = int (length panel) in
      if count \<ge> total'
        then Some (map Parent (py_slice_to total' (map Anchor panel)))
      else if count = previously_counted
        then Some (map Anchor panel)
      else discover_listings total' count panels)"

section \<open>Batch orchestrator\<close>

text \<open>
  What the browser and the file system answer while one search is processed. The
  output is the list of files written, each with its rows.
\<close>

record 'e search_env =
  fill :: "exn option"
  press_enter :: "exn option"
  hover :: "exn option"
  panels :: "'e list list"
  view :: "'e locator \<Rightarrow> detail_view"
  save_excel :: "exn option"
  save_csv :: "exn option"

type_synonym files = "(string \<times> business list) list"

datatype run_end = Finished | Aborted exn | Stuck

definition file_stem :: "string \<Rightarrow> string" where
  "file_stem search_for = ''google_maps_data_'' @ py_replace (CHR '' '') ''_'' search_for"

text \<open>
  The body of \<open>for search_for in search_list\<close>. Only the scraping of a listing is
  inside a \<open>try\<close>: an exception of any other call leaves the loop.
\<close>

definition process_search :: "int \<Rightarrow> 'e search_env \<Rightarrow> string \<Rightarrow> files \<Rightarrow> files \<times> run_end" where
  "process_search total' env search_for0 out =
     (let search_for = py_strip search_for0 in
      case fill env of Some e \<Rightarrow> (out, Aborted e) | None \<Rightarrow>
      (case press_enter env of Some e \<Rightarrow> (out, Aborted e) | None \<Rightarrow>
      (case hover env of Some e \<Rightarrow> (out, Aborted e) | None \<Rightarrow>
      (case discover_listings total' 0 (panels env) of None \<Rightarrow> (out, Stuck) | Some listings \<Rightarrow>
      (let bl = business_list (scrape_listings (view env) listings new_business_list) in
       case save_excel env of Some e \<Rightarrow> (out, Aborted e) | None \<Rightarrow>
       (let out1 = out @ [(''output/'' @ file_stem search_for @ ''.xlsx'', bl)] in
        case save_csv env of Some e \<Rightarrow> (out1, Aborted e) | None \<Rightarrow>
          (out1 @ [(''output/'' @ file_stem search_for @ ''.csv'', bl)], Finished)))))))"

text \<open>The \<open>for\<close> loop over \<open>search_list\<close>; \<open>browser i\<close> answers during search \<open>i\<close>.\<close>

fun run_searches :: "int \<Rightarrow> (nat \<Rightarrow> 'e search_env) \<Rightarrow> nat \<Rightarrow> string list \<Rightarrow> files \<Rightarrow> files \<times> run_end" where
  "run_searches total' browser i [] out = (out, Finished)"
| "run_searches total' browser i (q # qs) out =
     (case process_search total' (browser i) q out of
        (out1, Finished) \<Rightarrow> run_searches total' browser (Suc i) qs out1
      | (out1, Aborted e) \<Rightarrow> (out1, Aborted e)
      | (out1, Stuck) \<Rightarrow> (out1, Stuck))"

section \<open>Command line\<close>

text \<open>\<open>total = args.total if args.total else 1_000_000\<close>; \<open>None\<close> is an absent \<open>-t\<close>.\<close>

definition effective_total :: "int option \<Rightarrow> int" where
  "effective_total total_arg =
     (case total_arg of None \<Rightarrow> 1000000 | Some t \<Rightarrow> if t \<noteq> 0 then t else 1000000)"

text \<open>
  \<open>main\<close>. \<open>search_arg\<close> and \<open>total_arg\<close> are the parsed \<open>-s\<close> and \<open>-t\<close>;
  \<open>input_file\<close> is \<open>readlines()\<close> of \<open>input.txt\<close>, \<open>None\<close> when the file does not
  exist. The program either leaves through \<open>sys.exit()\<close>, with what it printed and
  the argument of \<open>sys.exit\<close>, or goes on to the browser.
\<close>

datatype main_end =
    SystemExit "string list" "int option"
  | Scraped files run_end

definition no_search_message :: string where
  "no_search_message =
     ''Error occurred: You must either pass the -s search argument, or add searches to input.txt''"

definition main :: "string option \<Rightarrow> int option \<Rightarrow> string list option \<Rightarrow> (nat \<Rightarrow> 'e search_env) \<Rightarrow> main_end" where
  "main search_arg total_arg input_file browser =
     (let search_list = (case search_arg of None \<Rightarrow> [] | Some s \<Rightarrow> if s \<noteq> [] then [s] else []);
          total' = effective_total total_arg
      in if search_list = []
         then (let search_list1 = (case input_file of None \<Rightarrow> search_list | Some ls \<Rightarrow> ls)
               in if length search_list1 = 0
                  then SystemExit [no_search_message] None
                  else (case run_searches total' browser 0 search_list1 [] of
                          (out, e) \<Rightarrow> Scraped out e))
         else (case run_searches total' browser 0 search_list [] of (out, e) \<Rightarrow> Scraped out e))"

text \<open>The exit status of a process that ends in \<open>sys.exit(arg)\<close>: zero without an argument.\<close>

definition exit_status :: "int option \<Rightarrow> int" where
  "exit_status arg = (case arg of None \<Rightarrow> 0 | Some n \<Rightarrow> n)"

section \<open>Notions of the specification\<close>

text \<open>
  The coordinate marker \<open>/@\<close>: whether a string contains it, and what follows its
  last occurrence (the string itself when there is none).
\<close>

fun has_marker :: "string \<Rightarrow> bool" where
  "has_marker [] = False"
| "has_marker (c # s) = (take 2 (c # s) = ''/@'' \<or> has_marker s)"

fun after_last_marker :: "string \<Rightarrow> string" where
  "after_last_marker [] = []"
| "after_last_marker (c # s) =
     (if has_marker s then after_last_marker s
      else if take 2 (c # s) = ''/@'' then tl s
      else c # s)"

text \<open>
  The discovery loop as a state machine. In iteration \<open>i\<close> the previous count is the
  initial one for \<open>i = 0\<close> and the count of iteration \<open>i - 1\<close> afterwards; the scan
  stops when the count has reached the target or has not changed. When the target is
  reached, the listings of the \<open>Done\<close> state are the entries kept by the cut at the
  target, each resolved to its parent: the first \<open>target\<close> entries for a target that
  is not negative, all but the last \<open>- target\<close> entries for a negative one. Otherwise
  they are all the entries as they are.
\<close>

definition previous_count :: "int \<Rightarrow> 'e list list \<Rightarrow> nat \<Rightarrow> int" where
  "previous_count initial ps i = (if i = 0 then initial else int (length (ps ! (i - 1))))"

definition scan_stops :: "int \<Rightarrow> int \<Rightarrow> 'e list \<Rightarrow> bool" where
  "scan_stops target previous panel =
     (target \<le> int (length panel) \<or> int (length panel) = previous)"

definition done_listings :: "int \<Rightarrow> 'e list \<Rightarrow> 'e locator list" where
  "done_listings target panel =
     (if target \<le> int (length panel)
      then map (\<lambda>e. Parent (Anchor e))
             (take (if 0 \<le> target then nat target else length panel - nat (- target)) panel)
      else map Anchor panel)"

text \<open>The leading whitespace-delimited token of a string; empty when there is none.\<close>

definition leading_token :: "string \<Rightarrow> string" where
  "leading_token s = takeWhile (\<lambda>c. \<not> is_space c) (dropWhile is_space s)"

text \<open>A decimal comma replaced by a period.\<close>

definition decimal_point :: "string \<Rightarrow> string" where
  "decimal_point s = map (\<lambda>c. if c = CHR '','' then CHR ''.'' else c) s"

text \<open>The records and the exceptions of a list of listings, each in discovery order.\<close>

definition record_of :: "detail_view \<Rightarrow> business option" where
  "record_of v = (case scrape_listing v of Inl e \<Rightarrow> None | Inr b \<Rightarrow> Some b)"

definition failure_of :: "detail_view \<Rightarrow> exn option" where
  "failure_of v = (case scrape_listing v of Inl e \<Rightarrow> Some e | Inr b \<Rightarrow> None)"

section \<open>Example data\<close>

text \<open>
  A detail view in which every call returns: the listing is named \<open>nm\<close>, the address
  region reads \<open>addr\<close>, there are no review regions, and the URL carries coordinates.
\<close>

definition example_view :: "string \<Rightarrow> string \<Rightarrow> detail_view" where
  "example_view nm addr =
     \<lparr>click = None, settle = None,
      aria_label = Inr (Some nm),
      address_text = Inr (Some addr),
      website_text = Inr (Some ''cafe.example''),
      phone_text = Inr None,
      reviews_span_count = Inr 0, reviews_span_text = Inr None,
      rating_img_count = Inr 0, rating_img_label = Inr None,
      url = ''https://www.google.com/maps/place/x/@12.5,8.25,17z/data=y''\<rparr>"

definition example_business :: "string \<Rightarrow> string \<Rightarrow> business" where
  "example_business nm addr =
     \<lparr>name = Some nm, address = Some addr, website = Some ''cafe.example'',
      phone_number = Some [], reviews_count = None, reviews_average = None,
      latitude = Some (Finite (25 / 2)), longitude = Some (Finite (33 / 4))\<rparr>"

text \<open>
  A search in which every call returns: the panel shows the same two places in both
  iterations of the scan, and each of them opens the detail view above.
\<close>

definition example_env :: "nat search_env" where
  "example_env =
     \<lparr>fill = None, press_enter = None, hover = None,
      panels = [[1, 2], [1, 2]],
      view = (\<lambda>l. example_view ''Cafe'' ''1 Main St''),
      save_excel = None, save_csv = None\<rparr>"

text \<open>
  Three searches read from \<open>input.txt\<close>; the browser answers the first and the third
  as above and fails to hover over the first result of the second.
\<close>

definition example_lines :: "string list" where
  "example_lines = [''cafe\<newline>'', ''bar\<newline>'', ''pub'']"

definition example_browser :: "nat \<Rightarrow> nat search_env" where
  "example_browser i = (if i = 1 then example_env\<lparr>hover := Some PlaywrightError\<rparr> else example_env)"

section \<open>Properties\<close>

subsection \<open>Splitting strings\<close>

lemma after_last_marker_none: "\<not> has_marker s \<Longrightarrow> after_last_marker s = s"
  by (induction s) auto

lemma py_split_from_nonempty: "py_split_from sep acc s \<noteq> []"
proof (induction sep acc s rule: py_split_from.induct)
  case (1 sep acc s)
  then show ?case by (subst py_split_from.simps) simp
qed

lemma last_split_marker_gen:
  "sep = ''/@'' \<Longrightarrow>
   last (py_split_from sep acc s) = (if has_marker s then after_last_marker s else acc @ s)"
proof (induction sep acc s rule: py_split_from.induct)
  case (1 sep acc s)
  note sep = \<open>sep = ''/@''\<close>
  show ?case
  proof (cases s)
    case Nil
    then show ?thesis by (subst py_split_from.simps) simp
  next
    case (Cons c s')
    show ?thesis
    proof (cases "take 2 s = ''/@''")
      case True
      then obtain s'' where s: "s = CHR ''/'' # CHR ''@'' # s''"
        using Cons by (cases s') auto
      have step: "py_split_from sep acc s = acc # py_split_from sep [] s''"
        using s sep by (subst py_split_from.simps) simp
      have "last (py_split_from sep [] (drop (length sep) s)) =
            (if has_marker (drop (length sep) s) then after_last_marker (drop (length sep) s)
             else [] @ drop (length sep) s)"
        using s sep by (intro "1.IH"(1)) simp_all
      then have ih: "last (py_split_from sep [] s'') =
            (if has_marker s'' then after_last_marker s'' else s'')"
        using s sep by simp
      show ?thesis using step py_split_from_nonempty[of sep "[]" s''] ih s by simp
    next
      case False
      have step: "py_split_from sep acc s = py_split_from sep (acc @ [c]) s'"
        using False Cons sep by (subst py_split_from.simps) auto
      have "last (py_split_from sep (acc @ [hd s]) (tl s)) =
            (if has_marker (tl s) then after_last_marker (tl s) else (acc @ [hd s]) @ tl s)"
        using False Cons sep by (intro "1.IH"(2)) simp_all
      then have ih: "last (py_split_from sep (acc @ [c]) s') =
            (if has_marker s' then after_last_marker s' else acc @ c # s')"
        using Cons by simp
      show ?thesis using step ih False Cons by auto
    qed
  qed
qed

lemma last_split_marker:
  "last (py_split ''/@'' s) = after_last_marker s"
  by (simp add: py_split_def last_split_marker_gen after_last_marker_none)

lemma py_split_from_Nil: "py_split_from sep acc [] = [acc]"
  by (subst py_split_from.simps) simp

lemma py_split_from_char:
  "py_split_from [c] acc (x # s) =
     (if x = c then acc # py_split_from [c] [] s else py_split_from [c] (acc @ [x]) s)"
  by (subst py_split_from.simps) simp

lemma hd_split_char:
  "hd (py_split_from [c] acc s) = acc @ takeWhile (\<lambda>x. x \<noteq> c) s"
  by (induction s arbitrary: acc) (simp_all add: py_split_from_Nil py_split_from_char)

lemma split_char_append:
  "c \<notin> set a \<Longrightarrow> py_split_from [c] acc (a @ c # s) = (acc @ a) # py_split_from [c] [] s"
  by (induction a arbitrary: acc) (auto simp add: py_split_from_char)

lemma split_char_none:
  "c \<notin> set a \<Longrightarrow> py_split_from [c] acc a = [acc @ a]"
  by (induction a arbitrary: acc) (auto simp add: py_split_from_Nil py_split_from_char)

lemma has_marker_append_free:
  "CHR ''/'' \<notin> set a \<Longrightarrow> has_marker (a @ c # s) = has_marker (c # s)"
  by (induction a) (auto split: list.splits)

lemma after_last_marker_append:
  "\<not> has_marker suf \<Longrightarrow> after_last_marker (pre @ ''/@'' @ suf) = suf"
proof (induction pre)
  case Nil
  then show ?case by (cases suf) auto
next
  case (Cons c pre)
  have "has_marker (pre @ ''/@'' @ suf)"
    by (induction pre) auto
  then show ?case using Cons by simp
qed

subsection \<open>Float literals contain no separator\<close>

lemma mem_dropWhile: "x \<in> set xs \<Longrightarrow> \<not> P x \<Longrightarrow> x \<in> set (dropWhile P xs)"
  by (induction xs) auto

lemma mem_c_strip: "x \<in> set s \<Longrightarrow> \<not> is_c_space x \<Longrightarrow> x \<in> set (c_strip s)"
  by (simp add: c_strip_def mem_dropWhile)

lemma mem_split_sign:
  "x \<in> set s \<Longrightarrow> x \<noteq> CHR ''-'' \<Longrightarrow> x \<noteq> CHR ''+'' \<Longrightarrow> x \<in> set (snd (split_sign s))"
  by (cases s) (auto simp: split_sign_def)

lemma list_all_digit_mem: "list_all is_digit ds \<Longrightarrow> x \<in> set ds \<Longrightarrow> is_digit x"
  by (simp add: list_all_iff)

lemma parse_exponent_foreign:
  assumes "x \<in> set s" "x = CHR '','' \<or> x = CHR ''/''"
  shows "parse_exponent s = None"
proof (cases s)
  case Nil
  with assms show ?thesis by simp
next
  case (Cons c r)
  show ?thesis
  proof (cases "c = CHR ''e'' \<or> c = CHR ''E''")
    case False
    then show ?thesis using Cons by (simp add: parse_exponent_def)
  next
    case True
    then have "x \<in> set r" using assms Cons by auto
    then have "x \<in> set (snd (split_sign r))"
      using assms(2) by (intro mem_split_sign) auto
    moreover have "\<not> is_digit x" using assms(2) by (auto simp: is_digit_def)
    ultimately have "\<not> list_all is_digit (snd (split_sign r))"
      using list_all_digit_mem by blast
    then show ?thesis using True Cons
      by (auto simp: parse_exponent_def split: prod.splits)
  qed
qed

lemma parse_number_foreign:
  assumes "x \<in> set u" "x = CHR '','' \<or> x = CHR ''/''"
  shows "parse_number u = None"
proof -
  have nd: "\<not> is_digit x" using assms(2) by (auto simp: is_digit_def)
  have "x \<in> set (dropWhile is_digit u)"
    using assms(1) nd by (rule mem_dropWhile)
  then obtain c r where r1: "dropWhile is_digit u = c # r" and x: "x \<in> set (c # r)"
    by (cases "dropWhile is_digit u") auto
  show ?thesis
  proof (cases "c = CHR ''.''")
    case True
    then have "x \<in> set r" using x assms(2) by auto
    then have "x \<in> set (dropWhile is_digit r)" using nd by (rule mem_dropWhile)
    then have "parse_exponent (dropWhile is_digit r) = None"
      using assms(2) by (rule parse_exponent_foreign)
    then show ?thesis using r1 True by (simp add: parse_number_def Let_def)
  next
    case False
    have "parse_exponent (c # r) = None"
      using x assms(2) by (rule parse_exponent_foreign)
    then show ?thesis using r1 False by (simp add: parse_number_def Let_def)
  qed
qed

lemma parse_abs_foreign:
  assumes "x \<in> set u" "x = CHR '','' \<or> x = CHR ''/''"
  shows "parse_abs u = None"
proof -
  have "lower x = x" using assms(2) by (auto simp: lower_def)
  then have "x \<in> set (map lower u)" using assms(1) by force
  moreover have "x \<notin> set ''inf''" "x \<notin> set ''infinity''" "x \<notin> set ''nan''"
    using assms(2) by auto
  ultimately have "map lower u \<noteq> ''inf''" "map lower u \<noteq> ''infinity''" "map lower u \<noteq> ''nan''"
    by metis+
  then show ?thesis
    using parse_number_foreign[OF assms] by (simp add: parse_abs_def Let_def)
qed

lemma py_float_foreign:
  assumes "x \<in> set s" "x = CHR '','' \<or> x = CHR ''/''"
  shows "py_float s = None"
proof -
  have "\<not> is_c_space x" using assms(2) by (auto simp: is_c_space_def)
  then have "x \<in> set (c_strip s)" using assms(1) by (simp add: mem_c_strip)
  then have "x \<in> set (filter (\<lambda>c. c \<noteq> CHR ''_'') (c_strip s))"
    using assms(2) by auto
  then have "x \<in> set (snd (split_sign (filter (\<lambda>c. c \<noteq> CHR ''_'') (c_strip s))))"
    using assms(2) by (intro mem_split_sign) auto
  then have "parse_abs (snd (split_sign (filter (\<lambda>c. c \<noteq> CHR ''_'') (c_strip s)))) = None"
    using assms(2) by (rule parse_abs_foreign)
  then show ?thesis
    by (auto simp add: py_float_def Let_def split: prod.splits)
qed

lemma py_float_Some_chars:
  "py_float s = Some f \<Longrightarrow> CHR '','' \<notin> set s \<and> CHR ''/'' \<notin> set s"
  using py_float_foreign by fastforce

subsection \<open>Coordinate parser\<close>

lemma coordinates_of_eq:
  "coordinates_of u = takeWhile (\<lambda>c. c \<noteq> CHR ''/'') (after_last_marker u)"
  unfolding coordinates_of_def last_split_marker by (simp add: py_split_def hd_split_char)

lemma extract_coordinates_eq:
  "extract_coordinates_from_url u =
     (let toks = py_split '','' (takeWhile (\<lambda>c. c \<noteq> CHR ''/'') (after_last_marker u)) in
      case py_float (toks ! 0) of
        None \<Rightarrow> Inl ValueError
      | Some la \<Rightarrow>
          if length toks < 2 then Inl IndexError
          else (case py_float (toks ! 1) of
                  None \<Rightarrow> Inl ValueError
                | Some lo \<Rightarrow> Inr (la, lo)))"
proof -
  have "py_split '','' s \<noteq> []" for s
    by (simp add: py_split_def py_split_from_nonempty)
  then show ?thesis
    by (auto simp add: extract_coordinates_from_url_def coordinates_of_eq Let_def py_index_def
        to_float_def split: option.splits)
qed

lemma has_marker_comma: "has_marker (CHR '','' # s) = has_marker s"
  by simp

lemma takeWhile_free:
  "c \<notin> set a \<Longrightarrow> takeWhile (\<lambda>x. x \<noteq> c) (a @ s) = a @ takeWhile (\<lambda>x. x \<noteq> c) s"
  by (induction a) auto

lemma tokens_of_body:
  assumes "CHR '','' \<notin> set lat" "CHR ''/'' \<notin> set lat" "CHR '','' \<notin> set lng" "CHR ''/'' \<notin> set lng"
  shows "py_split '','' (takeWhile (\<lambda>c. c \<noteq> CHR ''/'') (lat @ CHR '','' # lng @ CHR '','' # rest)) =
         lat # lng # py_split '','' (takeWhile (\<lambda>c. c \<noteq> CHR ''/'') rest)"
proof -
  have "takeWhile (\<lambda>c. c \<noteq> CHR ''/'') (lat @ CHR '','' # lng @ CHR '','' # rest) =
        lat @ CHR '','' # (lng @ CHR '','' # takeWhile (\<lambda>c. c \<noteq> CHR ''/'') rest)"
    using assms by (simp add: takeWhile_free)
  then show ?thesis
    using assms by (simp add: py_split_def split_char_append)
qed

lemma marker_of_body:
  assumes "CHR ''/'' \<notin> set lat" "CHR ''/'' \<notin> set lng"
  shows "has_marker (lat @ '','' @ lng @ '','' @ rest) = has_marker rest"
proof -
  have "has_marker (lat @ CHR '','' # (lng @ CHR '','' # rest)) = has_marker (CHR '','' # (lng @ CHR '','' # rest))"
    using assms(1) by (rule has_marker_append_free)
  also have "\<dots> = has_marker (lng @ CHR '','' # rest)" by simp
  also have "\<dots> = has_marker (CHR '','' # rest)" using assms(2) by (rule has_marker_append_free)
  also have "\<dots> = has_marker rest" by simp
  finally show ?thesis by simp
qed

lemma extract_coordinates_form:
  assumes "py_float lat = Some a" "py_float lng = Some b" "\<not> has_marker rest"
  shows "extract_coordinates_from_url (pre @ ''/@'' @ lat @ '','' @ lng @ '','' @ rest) = Inr (a, b)"
proof -
  have c: "CHR '','' \<notin> set lat" "CHR ''/'' \<notin> set lat" "CHR '','' \<notin> set lng" "CHR ''/'' \<notin> set lng"
    using assms(1,2) py_float_Some_chars by blast+
  have "\<not> has_marker (lat @ '','' @ lng @ '','' @ rest)"
    using marker_of_body[of lat lng rest] assms(3) c by simp
  then have "after_last_marker (pre @ ''/@'' @ (lat @ '','' @ lng @ '','' @ rest)) = lat @ '','' @ lng @ '','' @ rest"
    by (rule after_last_marker_append)
  then have alm: "after_last_marker (pre @ ''/@'' @ lat @ '','' @ lng @ '','' @ rest) =
      lat @ CHR '','' # lng @ CHR '','' # rest"
    by simp
  show ?thesis
    unfolding extract_coordinates_eq alm tokens_of_body[OF c]
    using assms(1,2) by (simp add: Let_def)
qed

lemmas py_float_eval = py_float_def c_strip_def is_c_space_def split_sign_def parse_abs_def
  lower_def parse_number_def is_digit_def parse_exponent_def scale10_def digits_val_def
  digit_val_def

text \<open>
  C4, as the code has it. A URL \<open>prefix/@<lat>,<lng>,rest\<close> whose \<open><lat>\<close> and
  \<open><lng>\<close> are valid float literals, and whose \<open>rest\<close> holds no further \<open>/@\<close>,
  gives \<open>(<lat>, <lng>)\<close>. For every URL the result is decided by the segment after
  the last \<open>/@\<close> (the whole URL when there is none) up to the next \<open>/\<close>, split at
  commas: ValueError when the first token is not a float, IndexError when there is no
  second token, ValueError when the second token is not a float, and the two floats
  otherwise. The absence of the marker is not a failure by itself.
\<close>

theorem extract_coordinates_spec:
  "(py_float lat = Some a \<longrightarrow> py_float lng = Some b \<longrightarrow> \<not> has_marker rest \<longrightarrow>
      extract_coordinates_from_url (pre @ ''/@'' @ lat @ '','' @ lng @ '','' @ rest) = Inr (a, b)) \<and>
   extract_coordinates_from_url u =
     (let toks = py_split '','' (takeWhile (\<lambda>c. c \<noteq> CHR ''/'') (after_last_marker u)) in
      case py_float (toks ! 0) of
        None \<Rightarrow> Inl ValueError
      | Some la \<Rightarrow>
          if length toks < 2 then Inl IndexError
          else (case py_float (toks ! 1) of
                  None \<Rightarrow> Inl ValueError
                | Some lo \<Rightarrow> Inr (la, lo)))"
  using extract_coordinates_form extract_coordinates_eq by blast

theorem extract_coordinates_spec_witness:
  "py_float ''12.34'' = Some (Finite (617 / 50)) \<and>
   py_float ''-56.78'' = Some (Finite (- (2839 / 50))) \<and>
   \<not> has_marker ''rest'' \<and>
   extract_coordinates_from_url ''prefix/@12.34,-56.78,rest'' =
     Inr (Finite (617 / 50), Finite (- (2839 / 50)))"
proof -
  have lat: "py_float ''12.34'' = Some (Finite (617 / 50))" by (simp add: py_float_eval)
  have lng: "py_float ''-56.78'' = Some (Finite (- (2839 / 50)))" by (simp add: py_float_eval)
  have rest: "\<not> has_marker ''rest''" by simp
  have "extract_coordinates_from_url (''prefix'' @ ''/@'' @ ''12.34'' @ '','' @ ''-56.78'' @ '','' @ ''rest'') =
        Inr (Finite (617 / 50), Finite (- (2839 / 50)))"
    using extract_coordinates_spec[of "''12.34''" "Finite (617 / 50)" "''-56.78''"
        "Finite (- (2839 / 50))" "''rest''" "''prefix''" "''x''"] lat lng rest
    by blast
  then have "extract_coordinates_from_url ''prefix/@12.34,-56.78,rest'' =
        Inr (Finite (617 / 50), Finite (- (2839 / 50)))"
    by simp
  then show ?thesis using lat lng rest by blast
qed

text \<open>
  The claim C4 as stated fails: the URL \<open>1,2\<close> has no \<open>/@\<close> marker, and the parser
  returns \<open>(1.0, 2.0)\<close> for it.
\<close>

theorem unmarked_url_counterexample:
  "\<not> has_marker ''1,2'' \<and> extract_coordinates_from_url ''1,2'' = Inr (Finite 1, Finite 2)"
proof -
  have "extract_coordinates_from_url ''1,2'' = Inr (Finite 1, Finite 2)" by code_simp
  then show ?thesis by simp
qed

text \<open>
  C5, as the code has it. The segment parsed is the one after the last occurrence of
  \<open>/@\<close> (\<open>split('/@')[-1]\<close>), up to the next \<open>/\<close>: whatever stands before the last
  marker, further markers included, has no effect on the result.
\<close>

theorem coordinates_follow_last_marker:
  "\<not> has_marker suf \<Longrightarrow>
     coordinates_of (pre @ ''/@'' @ suf) = takeWhile (\<lambda>c. c \<noteq> CHR ''/'') suf \<and>
     extract_coordinates_from_url (pre @ ''/@'' @ suf) = extract_coordinates_from_url (''/@'' @ suf)"
proof -
  assume "\<not> has_marker suf"
  then have "after_last_marker (pre @ ''/@'' @ suf) = suf" "after_last_marker ([] @ ''/@'' @ suf) = suf"
    by (rule after_last_marker_append)+
  then show ?thesis
    by (simp add: coordinates_of_eq extract_coordinates_eq)
qed

theorem coordinates_follow_last_marker_witness:
  "\<not> has_marker ''3,4'' \<and>
   coordinates_of ''a/@1,2/b/@3,4'' = ''3,4'' \<and>
   extract_coordinates_from_url ''a/@1,2/b/@3,4'' = extract_coordinates_from_url ''/@3,4''"
  using coordinates_follow_last_marker[of "''3,4''" "''a/@1,2/b''"] by simp

text \<open>
  The claim C5 as stated fails: in \<open>a/@1,2/b/@3,4\<close> the first marker is followed by
  \<open>1,2\<close>, and the parser returns \<open>(3.0, 4.0)\<close>.
\<close>

theorem first_marker_counterexample:
  "extract_coordinates_from_url ''a/@1,2/b/@3,4'' = Inr (Finite 3, Finite 4) \<and>
   extract_coordinates_from_url ''a/@1,2/b/@3,4'' \<noteq> Inr (Finite 1, Finite 2)"
proof -
  have "extract_coordinates_from_url ''a/@1,2/b/@3,4'' = Inr (Finite 3, Finite 4)" by code_simp
  then show ?thesis by simp
qed

subsection \<open>Listing discovery loop\<close>

lemma previous_count_0: "previous_count initial ps 0 = initial"
  by (simp add: previous_count_def)

lemma previous_count_Suc:
  "previous_count initial (p # ps) (Suc i) = previous_count (int (length p)) ps i"
  by (cases i) (simp_all add: previous_count_def)

lemma discover_listings_stop:
  "scan_stops target previous p \<Longrightarrow>
   discover_listings target previous (p # ps) = Some (done_listings target p)"
  by (auto simp add: scan_stops_def done_listings_def py_slice_to_def Let_def take_map)

lemma discover_listings_go:
  "\<not> scan_stops target previous p \<Longrightarrow>
   discover_listings target previous (p # ps) = discover_listings target (int (length p)) ps"
  by (auto simp add: scan_stops_def Let_def)

lemma discover_listings_iff:
  "(discover_listings target initial ps = Some ls) =
   (\<exists>i<length ps. scan_stops target (previous_count initial ps i) (ps ! i) \<and>
      (\<forall>j<i. \<not> scan_stops target (previous_count initial ps j) (ps ! j)) \<and>
      ls = done_listings target (ps ! i))"
proof (induction ps arbitrary: initial)
  case Nil
  then show ?case by simp
next
  case (Cons p ps)
  show ?case
  proof (cases "scan_stops target initial p")
    case True
    have "discover_listings target initial (p # ps) = Some (done_listings target p)"
      using True by (rule discover_listings_stop)
    then show ?thesis
      using True
      by (auto simp add: Ex_less_Suc2 All_less_Suc2 previous_count_0 previous_count_Suc)
  next
    case False
    have "discover_listings target initial (p # ps) = discover_listings target (int (length p)) ps"
      using False by (rule discover_listings_go)
    then show ?thesis
      using False Cons.IH[of "int (length p)"]
      by (simp add: Ex_less_Suc2 All_less_Suc2 previous_count_0 previous_count_Suc)
  qed
qed

text \<open>
  C1, amended. For every target, the loop started with previous count 0 ends in
  \<open>Done\<close> with listings \<open>ls\<close> exactly when some iteration is the first whose count
  has reached the target or equals the previous count, and \<open>ls\<close> is what that
  iteration enumerates. When the count has reached a target that is not negative,
  these are the first \<open>target\<close> entries, each resolved to its parent, exactly
  \<open>target\<close> of them. A negative target is reached by every count: the first
  iteration stops, with all but the last \<open>- target\<close> entries, each resolved to its
  parent. When the target is not reached, they are all the entries as they are.
\<close>

theorem discover_listings_done:
  "((discover_listings target 0 ps = Some ls) =
      (\<exists>i<length ps. scan_stops target (previous_count 0 ps i) (ps ! i) \<and>
         (\<forall>j<i. \<not> scan_stops target (previous_count 0 ps j) (ps ! j)) \<and>
         ls = done_listings target (ps ! i))) \<and>
   (0 \<le> target \<longrightarrow> target \<le> int (length panel) \<longrightarrow>
      done_listings target panel = map (\<lambda>e. Parent (Anchor e)) (take (nat target) panel) \<and>
      length (done_listings target panel) = nat target) \<and>
   (target < 0 \<longrightarrow>
      scan_stops target previous panel \<and>
      discover_listings target previous (panel # rest) = Some (done_listings target panel) \<and>
      done_listings target panel =
        map (\<lambda>e. Parent (Anchor e)) (take (length panel - nat (- target)) panel) \<and>
      length (done_listings target panel) = length panel - nat (- target)) \<and>
   (\<not> target \<le> int (length panel) \<longrightarrow>
      done_listings target panel = map Anchor panel \<and>
      length (done_listings target panel) = length panel)"
proof -
  have neg: "scan_stops target previous panel" if "target < 0"
    using that by (simp add: scan_stops_def)
  have "discover_listings target previous (panel # rest) = Some (done_listings target panel)"
    if "target < 0"
    using neg[OF that] by (rule discover_listings_stop)
  then show ?thesis
    using discover_listings_iff[of target 0 ps ls] neg
    by (auto simp add: done_listings_def)
qed

text \<open>
  Counts 3, 7, 7 with target 20 end with the 7 entries; counts 5, 12, 25 with target
  20 end with the first 20, resolved to their parents; a count of 3 with target -1
  ends at once with the first 2, resolved to their parents.
\<close>

theorem discover_listings_done_witness:
  "discover_listings 20 0 [''abc'', ''abcdefg'', ''abcdefg''] = Some (map Anchor ''abcdefg'') \<and>
   length (map Anchor ''abcdefg'') = 7 \<and>
   discover_listings 20 0 [''abcde'', ''abcdefghijkl'', ''abcdefghijklmnopqrstuvwxy''] =
     Some (map (\<lambda>e. Parent (Anchor e)) ''abcdefghijklmnopqrst'') \<and>
   length (map (\<lambda>e. Parent (Anchor e)) ''abcdefghijklmnopqrst'') = 20 \<and>
   discover_listings (- 1) 0 [''abc'', ''abcdefg''] = Some (map (\<lambda>e. Parent (Anchor e)) ''ab'')"
proof -
  let ?a = "[''abc'', ''abcdefg'', ''abcdefg'']"
  let ?b = "[''abcde'', ''abcdefghijkl'', ''abcdefghijklmnopqrstuvwxy'']"
  have a: "\<exists>i<length ?a. scan_stops 20 (previous_count 0 ?a i) (?a ! i) \<and>
         (\<forall>j<i. \<not> scan_stops 20 (previous_count 0 ?a j) (?a ! j)) \<and>
         map Anchor ''abcdefg'' = done_listings 20 (?a ! i)"
    by (rule exI[of _ 2])
       (simp add: scan_stops_def previous_count_def done_listings_def numeral_2_eq_2 All_less_Suc2)
  have b: "\<exists>i<length ?b. scan_stops 20 (previous_count 0 ?b i) (?b ! i) \<and>
         (\<forall>j<i. \<not> scan_stops 20 (previous_count 0 ?b j) (?b ! j)) \<and>
         map (\<lambda>e. Parent (Anchor e)) ''abcdefghijklmnopqrst'' = done_listings 20 (?b ! i)"
    by (rule exI[of _ 2])
       (simp add: scan_stops_def previous_count_def done_listings_def numeral_2_eq_2 All_less_Suc2)
  have n: "(- 1 :: int) < 0" by simp
  have "discover_listings 20 0 ?a = Some (map Anchor ''abcdefg'')"
    using discover_listings_done[where target = 20 and ps = ?a and ls = "map Anchor ''abcdefg''"] a
    by blast
  moreover have "discover_listings 20 0 ?b = Some (map (\<lambda>e. Parent (Anchor e)) ''abcdefghijklmnopqrst'')"
    using discover_listings_done[where target = 20 and ps = ?b
        and ls = "map (\<lambda>e. Parent (Anchor e)) ''abcdefghijklmnopqrst''"] b
    by blast
  moreover have "discover_listings (- 1) 0 (''abc'' # [''abcdefg'']) =
      Some (map (\<lambda>e. Parent (Anchor e)) (take (length ''abc'' - nat (- (- 1))) ''abc''))"
    using discover_listings_done[where target = "- 1" and previous = 0 and panel = "''abc''"
        and rest = "[''abcdefg'']" and ps = "[]" and ls = "[]"] n
    by metis
  ultimately show ?thesis by simp
qed

text \<open>
  C1 as stated fails for a negative target, which \<open>-t\<close> accepts: with target -1 and
  three entries in the panel the loop returns two entries, neither -1 of them nor
  the entries truncated to the target.
\<close>

theorem negative_target_counterexample:
  "discover_listings (- 1) 0 [[1, 2, 3 :: nat]] = Some [Parent (Anchor 1), Parent (Anchor 2)] \<and>
   [Parent (Anchor 1), Parent (Anchor 2)] \<noteq>
     map (\<lambda>e. Parent (Anchor e)) (take (nat (- 1)) [1, 2, 3 :: nat]) \<and>
   int (length [Parent (Anchor (1 :: nat)), Parent (Anchor 2)]) \<noteq> - 1"
  by (simp add: py_slice_to_def)

subsection \<open>Record collector\<close>

lemma example_url:
  "extract_coordinates_from_url ''https://www.google.com/maps/place/x/@12.5,8.25,17z/data=y'' =
     Inr (Finite (25 / 2), Finite (33 / 4))"
proof -
  have lat: "py_float ''12.5'' = Some (Finite (25 / 2))" by (simp add: py_float_eval)
  have lng: "py_float ''8.25'' = Some (Finite (33 / 4))" by (simp add: py_float_eval)
  have "\<not> has_marker ''17z/data=y''" by simp
  then have "extract_coordinates_from_url (''https://www.google.com/maps/place/x'' @ ''/@'' @
      ''12.5'' @ '','' @ ''8.25'' @ '','' @ ''17z/data=y'') = Inr (Finite (25 / 2), Finite (33 / 4))"
    using lat lng by (intro extract_coordinates_form)
  then show ?thesis by simp
qed

lemma scrape_example_view:
  "scrape_listing (example_view nm addr) = Inr (example_business nm addr)"
  by (simp add: scrape_listing_def example_view_def example_business_def and_then_def
      returned_def or_empty_def reviews_count_of_def reviews_average_of_def example_url)

lemma scrape_listings_lists:
  "business_list (scrape_listings vw ls st) =
     business_list st @ List.map_filter (\<lambda>l. record_of (vw l)) ls \<and>
   errors_printed (scrape_listings vw ls st) =
     errors_printed st @ List.map_filter (\<lambda>l. failure_of (vw l)) ls"
proof (induction ls arbitrary: st)
  case Nil
  then show ?case by (simp add: List.map_filter_simps)
next
  case (Cons l ls)
  show ?case
    by (cases "scrape_listing (vw l)")
       (simp_all add: Cons.IH scrape_step_def record_of_def failure_of_def List.map_filter_simps)
qed

lemma record_of_None_iff:
  "(record_of v = None) =
     (click v \<noteq> None \<or> settle v \<noteq> None \<or> isl (aria_label v) \<or> isl (address_text v) \<or>
      isl (website_text v) \<or> isl (phone_text v) \<or> isl (reviews_count_of v) \<or>
      isl (reviews_average_of v) \<or> isl (extract_coordinates_from_url (url v)))"
  by (simp add: record_of_def scrape_listing_def and_then_def returned_def Let_def
      split: sum.split option.split prod.split)

lemma failure_of_Some_iff: "(failure_of v = None) = (record_of v \<noteq> None)"
  by (simp add: failure_of_def record_of_def split: sum.split)

lemma activation_failure:
  "(click v = Some e \<longrightarrow> scrape_listing v = Inl e) \<and>
   (click v = None \<longrightarrow> settle v = Some e \<longrightarrow> scrape_listing v = Inl e)"
  by (simp add: scrape_listing_def and_then_def returned_def)

lemma about_blank: "extract_coordinates_from_url ''about:blank'' = Inl ValueError"
  by code_simp

text \<open>
  C2. The batch of a list of listings holds exactly the records of the listings whose
  scraping returned, in discovery order, and the exceptions of the others are printed,
  in order. A listing has no record exactly when a call of its \<open>try\<close> body raised:
  the click or the wait that activates it, the read of a field, the extraction of
  the review count or average, or the parse of the coordinates; an exception of the
  click or of the wait is the one printed. So an exception raised while one listing
  is activated, read or coordinate-parsed drops that listing only. For three
  listings of which the second raises, the batch is the records of the first and the
  third.
\<close>

theorem scrape_listings_isolates_failures:
  "business_list (scrape_listings vw ls new_business_list) =
     List.map_filter (\<lambda>l. record_of (vw l)) ls \<and>
   errors_printed (scrape_listings vw ls new_business_list) =
     List.map_filter (\<lambda>l. failure_of (vw l)) ls \<and>
   ((record_of v = None) =
      (click v \<noteq> None \<or> settle v \<noteq> None \<or> isl (aria_label v) \<or> isl (address_text v) \<or>
       isl (website_text v) \<or> isl (phone_text v) \<or> isl (reviews_count_of v) \<or>
       isl (reviews_average_of v) \<or> isl (extract_coordinates_from_url (url v)))) \<and>
   ((failure_of v = None) = (record_of v \<noteq> None)) \<and>
   (click v = Some e \<longrightarrow> scrape_listing v = Inl e) \<and>
   (click v = None \<longrightarrow> settle v = Some e \<longrightarrow> scrape_listing v = Inl e) \<and>
   (scrape_listing (vw l1) = Inr b1 \<longrightarrow> scrape_listing (vw l2) = Inl e2 \<longrightarrow>
    scrape_listing (vw l3) = Inr b3 \<longrightarrow>
      business_list (scrape_listings vw [l1, l2, l3] new_business_list) = [b1, b3])"
proof -
  have three: "business_list (scrape_listings vw [l1, l2, l3] new_business_list) = [b1, b3]"
    if "scrape_listing (vw l1) = Inr b1" "scrape_listing (vw l2) = Inl e2"
      "scrape_listing (vw l3) = Inr b3"
    using that by (simp add: scrape_step_def new_business_list_def)
  have lists: "business_list (scrape_listings vw ls new_business_list) =
     List.map_filter (\<lambda>l. record_of (vw l)) ls \<and>
   errors_printed (scrape_listings vw ls new_business_list) =
     List.map_filter (\<lambda>l. failure_of (vw l)) ls"
    using scrape_listings_lists[of vw ls new_business_list]
    by (simp add: new_business_list_def)
  show ?thesis
    using three lists record_of_None_iff[of v] failure_of_Some_iff[of v] activation_failure[of v e]
    by blast
qed

text \<open>
  Five listings: the second fails in the click, the third in the review count (the
  text is not a number), the fourth in the coordinates (the URL has none); the batch
  is the records of the first and the fifth. For the first, second and fifth alone it
  is the same.
\<close>

theorem scrape_listings_isolates_failures_witness:
  "scrape_listing (example_view ''Cafe One'' ''1 Main St'') =
     Inr (example_business ''Cafe One'' ''1 Main St'') \<and>
   scrape_listing ((example_view ''Cafe Two'' ''2 Main St'')\<lparr>click := Some PlaywrightError\<rparr>) =
     Inl PlaywrightError \<and>
   scrape_listing ((example_view ''Cafe Three'' ''3 Main St'')
       \<lparr>reviews_span_count := Inr 2, reviews_span_text := Inr (Some ''no reviews'')\<rparr>) =
     Inl ValueError \<and>
   scrape_listing ((example_view ''Cafe Four'' ''4 Main St'')\<lparr>url := ''about:blank''\<rparr>) =
     Inl ValueError \<and>
   scrape_listing (example_view ''Cafe Five'' ''5 Main St'') =
     Inr (example_business ''Cafe Five'' ''5 Main St'') \<and>
   business_list
     (scrape_listings
        (\<lambda>l. if l = Anchor (1::nat) then example_view ''Cafe One'' ''1 Main St''
             else if l = Anchor 2
               then (example_view ''Cafe Two'' ''2 Main St'')\<lparr>click := Some PlaywrightError\<rparr>
             else if l = Anchor 3
               then (example_view ''Cafe Three'' ''3 Main St'')
                 \<lparr>reviews_span_count := Inr 2, reviews_span_text := Inr (Some ''no reviews'')\<rparr>
             else if l = Anchor 4
               then (example_view ''Cafe Four'' ''4 Main St'')\<lparr>url := ''about:blank''\<rparr>
             else example_view ''Cafe Five'' ''5 Main St'')
        [Anchor 1, Anchor 2, Anchor 3, Anchor 4, Anchor 5] new_business_list) =
     [example_business ''Cafe One'' ''1 Main St'', example_business ''Cafe Five'' ''5 Main St''] \<and>
   business_list
     (scrape_listings
        (\<lambda>l. if l = Anchor (1::nat) then example_view ''Cafe One'' ''1 Main St''
             else if l = Anchor 2
               then (example_view ''Cafe Two'' ''2 Main St'')\<lparr>click := Some PlaywrightError\<rparr>
             else if l = Anchor 3
               then (example_view ''Cafe Three'' ''3 Main St'')
                 \<lparr>reviews_span_count := Inr 2, reviews_span_text := Inr (Some ''no reviews'')\<rparr>
             else if l = Anchor 4
               then (example_view ''Cafe Four'' ''4 Main St'')\<lparr>url := ''about:blank''\<rparr>
             else example_view ''Cafe Five'' ''5 Main St'')
        [Anchor 1, Anchor 2, Anchor 5] new_business_list) =
     [example_business ''Cafe One'' ''1 Main St'', example_business ''Cafe Five'' ''5 Main St'']"
proof -
  let ?v1 = "example_view ''Cafe One'' ''1 Main St''"
  let ?v2 = "(example_view ''Cafe Two'' ''2 Main St'')\<lparr>click := Some PlaywrightError\<rparr>"
  let ?v3 = "(example_view ''Cafe Three'' ''3 Main St'')
       \<lparr>reviews_span_count := Inr 2, reviews_span_text := Inr (Some ''no reviews'')\<rparr>"
  let ?v4 = "(example_view ''Cafe Four'' ''4 Main St'')\<lparr>url := ''about:blank''\<rparr>"
  let ?v5 = "example_view ''Cafe Five'' ''5 Main St''"
  let ?vw = "\<lambda>l. if l = Anchor (1::nat) then ?v1 else if l = Anchor 2 then ?v2
             else if l = Anchor 3 then ?v3 else if l = Anchor 4 then ?v4 else ?v5"
  let ?b1 = "example_business ''Cafe One'' ''1 Main St''"
  let ?b5 = "example_business ''Cafe Five'' ''5 Main St''"
  have s2: "scrape_listing ?v2 = Inl PlaywrightError"
    using scrape_listings_isolates_failures[of "\<lambda>l. ?v2" "[]" ?v2 PlaywrightError]
    by simp
  have tok: "py_split_ws ''no reviews'' = [''no'', ''reviews'']"
    by (simp add: py_split_ws_def is_space_def)
  have num: "py_int ''no'' = None"
    by (simp add: py_int_def c_strip_def is_c_space_def split_sign_def is_digit_def)
  have rc: "reviews_count_of ?v3 = Inl ValueError"
    by (simp add: reviews_count_of_def and_then_def deref_def tok py_index_def py_replace_def
        to_int_def num)
  have s3: "scrape_listing ?v3 = Inl ValueError"
    using rc by (simp add: scrape_listing_def and_then_def returned_def example_view_def)
  have s4: "scrape_listing ?v4 = Inl ValueError"
    by (simp add: scrape_listing_def and_then_def returned_def example_view_def
        reviews_count_of_def reviews_average_of_def about_blank)
  have r: "record_of ?v1 = Some ?b1" "record_of ?v2 = None" "record_of ?v3 = None"
    "record_of ?v4 = None" "record_of ?v5 = Some ?b5"
    using s2 s3 s4 by (simp_all add: record_of_def scrape_example_view)
  have "business_list (scrape_listings ?vw
      [Anchor 1, Anchor 2, Anchor 3, Anchor 4, Anchor 5] new_business_list) =
      List.map_filter (\<lambda>l. record_of (?vw l)) [Anchor 1, Anchor 2, Anchor 3, Anchor 4, Anchor 5]"
    by (rule scrape_listings_isolates_failures[of ?vw
        "[Anchor 1, Anchor 2, Anchor 3, Anchor 4, Anchor 5]", THEN conjunct1])
  also have "\<dots> = [?b1, ?b5]"
    using r by (simp add: List.map_filter_simps)
  finally have five: "business_list (scrape_listings ?vw
      [Anchor 1, Anchor 2, Anchor 3, Anchor 4, Anchor 5] new_business_list) = [?b1, ?b5]" .
  have v: "scrape_listing (?vw (Anchor 1)) = Inr ?b1"
    "scrape_listing (?vw (Anchor 2)) = Inl PlaywrightError"
    "scrape_listing (?vw (Anchor 5)) = Inr ?b5"
    using s2 by (simp_all add: scrape_example_view)
  have three: "business_list (scrape_listings ?vw [Anchor 1, Anchor 2, Anchor 5]
      new_business_list) = [?b1, ?b5]"
    using scrape_listings_isolates_failures[of ?vw "[]" ?v1 PlaywrightError "Anchor 1" ?b1
        "Anchor 2" PlaywrightError "Anchor 5" ?b5] v
    by blast
  show ?thesis
    using five three s2 s3 s4 scrape_example_view by blast
qed

subsection \<open>Coordinates of a record\<close>

lemma and_then_Inr:
  "(and_then m f = Inr y) = (\<exists>x. m = Inr x \<and> f x = Inr y)"
  by (cases m) (simp_all add: and_then_def)

lemma scrape_listing_Inr:
  assumes "scrape_listing v = Inr b"
  shows "\<exists>n a w p rc ra la lo.
     aria_label v = Inr n \<and> address_text v = Inr a \<and> website_text v = Inr w \<and>
     phone_text v = Inr p \<and> reviews_count_of v = Inr rc \<and> reviews_average_of v = Inr ra \<and>
     extract_coordinates_from_url (url v) = Inr (la, lo) \<and>
     b = \<lparr>name = Some (or_empty n), address = Some (or_empty a), website = Some (or_empty w),
          phone_number = Some (or_empty p), reviews_count = rc, reviews_average = ra,
          latitude = Some la, longitude = Some lo\<rparr>"
  using assms
  by (auto simp add: scrape_listing_def and_then_Inr Let_def)


lemma batch_member:
  assumes "b \<in> set (business_list (scrape_listings vw ls new_business_list))"
  shows "\<exists>l. scrape_listing (vw l) = Inr b"
proof -
  have "b \<in> set (List.map_filter (\<lambda>l. record_of (vw l)) ls)"
    using assms scrape_listings_lists[of vw ls new_business_list]
    by (simp add: new_business_list_def)
  then obtain l where "record_of (vw l) = Some b"
    by (auto simp add: List.map_filter_def)
  then show ?thesis
    by (auto simp add: record_of_def split: sum.splits)
qed

lemma process_search_rows:
  assumes "process_search target env q out = (out1, e)" "(nm, rows) \<in> set out1"
  shows "(nm, rows) \<in> set out \<or>
         (\<exists>ls. rows = business_list (scrape_listings (view env) ls new_business_list))"
  using assms
  by (auto simp add: process_search_def Let_def split: option.splits)

lemma run_searches_rows:
  fixes browser :: "nat \<Rightarrow> 'e search_env"
  assumes "run_searches target browser i qs out = (out1, e)" "(nm, rows) \<in> set out1"
  shows "(nm, rows) \<in> set out \<or>
         (\<exists>(vw :: 'e locator \<Rightarrow> detail_view) ls.
            rows = business_list (scrape_listings vw ls new_business_list))"
  using assms
proof (induction qs arbitrary: i out)
  case Nil
  then show ?case by simp
next
  case (Cons q qs)
  obtain out2 e2 where step: "process_search target (browser i) q out = (out2, e2)"
    by (cases "process_search target (browser i) q out")
  show ?case
  proof (cases e2)
    case Finished
    then have run: "run_searches target browser (Suc i) qs out2 = (out1, e)"
      using Cons.prems(1) step by simp
    show ?thesis
      using Cons.IH[OF run Cons.prems(2)] process_search_rows[OF step] by blast
  next
    case (Aborted x)
    then have "out1 = out2" using Cons.prems(1) step by simp
    then show ?thesis using process_search_rows[OF step] Cons.prems(2) by blast
  next
    case Stuck
    then have "out1 = out2" using Cons.prems(1) step by simp
    then show ?thesis using process_search_rows[OF step] Cons.prems(2) by blast
  qed
qed

lemma main_rows:
  fixes browser :: "nat \<Rightarrow> 'e search_env"
  assumes "main search_arg total_arg input_file browser = Scraped out e" "(nm, rows) \<in> set out"
  shows "\<exists>(vw :: 'e locator \<Rightarrow> detail_view) ls.
           rows = business_list (scrape_listings vw ls new_business_list)"
proof -
  obtain qs where "run_searches (effective_total total_arg) browser 0 qs [] = (out, e)"
    using assms(1)
    by (auto simp add: main_def Let_def split: if_splits prod.splits)
  then show ?thesis using run_searches_rows assms(2) by fastforce
qed

lemma example_search:
  "process_search 1000000 example_env ''cafe'' out =
     (out @ [(''output/google_maps_data_cafe.xlsx'',
              [example_business ''Cafe'' ''1 Main St'', example_business ''Cafe'' ''1 Main St'']),
             (''output/google_maps_data_cafe.csv'',
              [example_business ''Cafe'' ''1 Main St'', example_business ''Cafe'' ''1 Main St''])],
      Finished)"
  by (simp add: process_search_def example_env_def scrape_step_def new_business_list_def
      scrape_example_view file_stem_def py_replace_def py_strip_def is_space_def Let_def)

text \<open>
  C9. In every record the pipeline produces, latitude and longitude are both present
  or both absent: a record that the field extractor returns has both, taken from one
  parse of the URL of the detail view, and therefore so has every row of every file
  that \<open>main\<close> writes.
\<close>

theorem coordinates_both_or_neither:
  fixes browser :: "nat \<Rightarrow> 'e search_env"
  shows "(scrape_listing v = Inr b \<longrightarrow>
      (\<exists>la lo. extract_coordinates_from_url (url v) = Inr (la, lo) \<and>
         latitude b = Some la \<and> longitude b = Some lo)) \<and>
   (main search_arg total_arg input_file browser = Scraped out e \<longrightarrow>
    (nm, rows) \<in> set out \<longrightarrow> r \<in> set rows \<longrightarrow>
      (latitude r = None) = (longitude r = None))"
proof -
  have one: "\<exists>la lo. extract_coordinates_from_url (url v) = Inr (la, lo) \<and>
         latitude b = Some la \<and> longitude b = Some lo" if "scrape_listing v = Inr b" for v b
    using scrape_listing_Inr[OF that] by auto
  have "(latitude r = None) = (longitude r = None)"
    if m: "main search_arg total_arg input_file browser = Scraped out e"
      and f: "(nm, rows) \<in> set out" and r: "r \<in> set rows"
  proof -
    obtain vw :: "'e locator \<Rightarrow> detail_view" and ls
      where "rows = business_list (scrape_listings vw ls new_business_list)"
      using main_rows[OF m f] by blast
    then obtain l where "scrape_listing (vw l) = Inr r"
      using r batch_member by blast
    then show ?thesis using one by fastforce
  qed
  then show ?thesis using one by blast
qed


theorem coordinates_both_or_neither_witness:
  "scrape_listing (example_view ''Cafe'' ''1 Main St'') =
     Inr (example_business ''Cafe'' ''1 Main St'') \<and>
   extract_coordinates_from_url (url (example_view ''Cafe'' ''1 Main St'')) =
     Inr (Finite (25 / 2), Finite (33 / 4)) \<and>
   latitude (example_business ''Cafe'' ''1 Main St'') = Some (Finite (25 / 2)) \<and>
   longitude (example_business ''Cafe'' ''1 Main St'') = Some (Finite (33 / 4)) \<and>
   main (Some ''cafe'') None None (\<lambda>i. example_env) =
     Scraped [(''output/google_maps_data_cafe.xlsx'',
               [example_business ''Cafe'' ''1 Main St'', example_business ''Cafe'' ''1 Main St'']),
              (''output/google_maps_data_cafe.csv'',
               [example_business ''Cafe'' ''1 Main St'', example_business ''Cafe'' ''1 Main St''])]
       Finished \<and>
   (latitude (example_business ''Cafe'' ''1 Main St'') = None) =
   (longitude (example_business ''Cafe'' ''1 Main St'') = None)"
proof -
  let ?b = "example_business ''Cafe'' ''1 Main St''"
  let ?out = "[(''output/google_maps_data_cafe.xlsx'', [?b, ?b]),
               (''output/google_maps_data_cafe.csv'', [?b, ?b])]"
  have m: "main (Some ''cafe'') None None (\<lambda>i. example_env) = Scraped ?out Finished"
    by (simp add: main_def effective_total_def example_search)
  have u: "extract_coordinates_from_url (url (example_view ''Cafe'' ''1 Main St'')) =
     Inr (Finite (25 / 2), Finite (33 / 4))"
    by (simp add: example_view_def example_url)
  show ?thesis
    using coordinates_both_or_neither[of "example_view ''Cafe'' ''1 Main St''" ?b
        "Some ''cafe''" None None "\<lambda>i. example_env" ?out Finished
        "''output/google_maps_data_cafe.csv''" "[?b, ?b]" ?b]
      m u scrape_example_view[of "''Cafe''" "''1 Main St''"]
    by (simp add: example_business_def)
qed

subsection \<open>Review average\<close>

lemma split_ws_from_acc:
  "acc \<noteq> [] \<Longrightarrow> py_split_ws_from acc s =
     (acc @ takeWhile (\<lambda>c. \<not> is_space c) s) #
       py_split_ws_from [] (dropWhile (\<lambda>c. \<not> is_space c) s)"
  by (induction s arbitrary: acc) auto

lemma first_token_from:
  "py_index (py_split_ws_from [] s) 0 =
     (if leading_token s = [] then Inl IndexError else Inr (leading_token s))"
proof (induction s)
  case Nil
  show ?case by (simp add: leading_token_def py_index_def)
next
  case (Cons c cs)
  show ?case
  proof (cases "is_space c")
    case True
    then have "py_split_ws_from [] (c # cs) = py_split_ws_from [] cs"
      by simp
    moreover have "leading_token (c # cs) = leading_token cs"
      using True by (simp add: leading_token_def)
    ultimately show ?thesis using Cons.IH by simp
  next
    case False
    then have "py_split_ws_from [] (c # cs) =
        (c # takeWhile (\<lambda>c. \<not> is_space c) cs) #
          py_split_ws_from [] (dropWhile (\<lambda>c. \<not> is_space c) cs)"
      by (simp add: split_ws_from_acc)
    moreover have "leading_token (c # cs) = c # takeWhile (\<lambda>c. \<not> is_space c) cs"
      using False by (simp add: leading_token_def)
    ultimately show ?thesis by (simp add: py_index_def)
  qed
qed

lemma first_token:
  "py_index (py_split_ws s) 0 =
     (if leading_token s = [] then Inl IndexError else Inr (leading_token s))"
  by (simp add: py_split_ws_def first_token_from)

lemma replace_comma: "py_replace (CHR '','') ''.'' s = decimal_point s"
  by (induction s) (simp_all add: py_replace_def decimal_point_def)


lemma py_float_Nil: "py_float [] = None"
  by (simp add: py_float_eval)

lemma reviews_average_label:
  assumes "rating_img_count v = Inr n" "0 < n" "rating_img_label v = Inr (Some lbl)"
  shows "reviews_average_of v =
        (case py_float (decimal_point (leading_token lbl)) of
           Some f \<Rightarrow> Inr (Some f)
         | None \<Rightarrow> if leading_token lbl = [] then Inl IndexError else Inl ValueError)"
proof (cases "leading_token lbl = []")
  case True
  then show ?thesis
    using assms
    by (simp add: reviews_average_of_def and_then_def deref_def first_token
        decimal_point_def py_float_Nil)
next
  case False
  then show ?thesis
    using assms
    by (simp add: reviews_average_of_def and_then_def deref_def first_token replace_comma
        to_float_def split: option.split)
qed


text \<open>
  C8. When the rating image exists, the review average is the float read from the
  leading whitespace-delimited token of its label, with commas replaced by periods;
  the extraction raises when that token is not a float literal (IndexError when the
  label has no token at all). The label \<open>4,5 stars\<close> gives 4.5. When the rating image
  does not exist, the review average is absent.
\<close>

theorem reviews_average_spec:
  "(rating_img_count v = Inr 0 \<longrightarrow> reviews_average_of v = Inr None) \<and>
   (rating_img_count v = Inr n \<longrightarrow> 0 < n \<longrightarrow> rating_img_label v = Inr (Some lbl) \<longrightarrow>
      reviews_average_of v =
        (case py_float (decimal_point (leading_token lbl)) of
           Some f \<Rightarrow> Inr (Some f)
         | None \<Rightarrow> if leading_token lbl = [] then Inl IndexError else Inl ValueError)) \<and>
   (rating_img_count v = Inr n \<longrightarrow> 0 < n \<longrightarrow>
    rating_img_label v = Inr (Some ''4,5 stars'') \<longrightarrow>
      reviews_average_of v = Inr (Some (Finite (9 / 2))))"
proof -
  have tok: "leading_token ''4,5 stars'' = ''4,5''"
    by (simp add: leading_token_def is_space_def)
  have dp: "decimal_point ''4,5'' = ''4.5''"
    by (simp add: decimal_point_def)
  have fl: "py_float ''4.5'' = Some (Finite (9 / 2))"
    by (simp add: py_float_eval)
  have ex: "reviews_average_of v = Inr (Some (Finite (9 / 2)))"
    if "rating_img_count v = Inr n" "0 < n" "rating_img_label v = Inr (Some ''4,5 stars'')"
    using reviews_average_label[OF that] by (simp only: tok dp fl option.case)
  have zero: "reviews_average_of v = Inr None" if "rating_img_count v = Inr 0"
    using that by (simp add: reviews_average_of_def and_then_def)
  show ?thesis using reviews_average_label[of v n lbl] ex zero by blast
qed

theorem reviews_average_spec_witness:
  "reviews_average_of (example_view ''Cafe'' ''1 Main St'') = Inr None \<and>
   reviews_average_of ((example_view ''Cafe'' ''1 Main St'')
       \<lparr>rating_img_count := Inr 2, rating_img_label := Inr (Some ''4,5 stars'')\<rparr>) =
     Inr (Some (Finite (9 / 2))) \<and>
   reviews_average_of ((example_view ''Cafe'' ''1 Main St'')
       \<lparr>rating_img_count := Inr 2, rating_img_label := Inr (Some '' 3.0 stars'')\<rparr>) =
     Inr (Some (Finite 3)) \<and>
   reviews_average_of ((example_view ''Cafe'' ''1 Main St'')
       \<lparr>rating_img_count := Inr 2, rating_img_label := Inr (Some ''stars'')\<rparr>) =
     Inl ValueError"
proof -
  let ?v = "example_view ''Cafe'' ''1 Main St''"
  let ?w = "?v\<lparr>rating_img_count := Inr 2, rating_img_label := Inr (Some ''4,5 stars'')\<rparr>"
  let ?x = "?v\<lparr>rating_img_count := Inr 2, rating_img_label := Inr (Some '' 3.0 stars'')\<rparr>"
  let ?y = "?v\<lparr>rating_img_count := Inr 2, rating_img_label := Inr (Some ''stars'')\<rparr>"
  have z: "rating_img_count ?v = Inr 0" by (simp add: example_view_def)
  have p: "(0::nat) < 2" by simp
  have a: "reviews_average_of ?v = Inr None"
    using reviews_average_spec[of ?v 2 "''4,5 stars''"] z by blast
  have c: "rating_img_count ?w = Inr 2" "rating_img_label ?w = Inr (Some ''4,5 stars'')"
    by simp_all
  have b: "reviews_average_of ?w = Inr (Some (Finite (9 / 2)))"
    using reviews_average_spec[of ?w 2 "''4,5 stars''"] c p by blast
  have tx: "leading_token '' 3.0 stars'' = ''3.0''" "decimal_point ''3.0'' = ''3.0''"
    by (simp_all add: leading_token_def is_space_def decimal_point_def)
  have fx: "py_float ''3.0'' = Some (Finite 3)"
    by (simp add: py_float_eval)
  have cx: "rating_img_count ?x = Inr 2" "rating_img_label ?x = Inr (Some '' 3.0 stars'')"
    by simp_all
  have "reviews_average_of ?x =
        (case py_float (decimal_point (leading_token '' 3.0 stars'')) of
           Some f \<Rightarrow> Inr (Some f)
         | None \<Rightarrow> if leading_token '' 3.0 stars'' = [] then Inl IndexError else Inl ValueError)"
    using reviews_average_spec[of ?x 2 "'' 3.0 stars''"] cx p by blast
  then have x: "reviews_average_of ?x = Inr (Some (Finite 3))"
    by (simp only: tx fx option.case)
  have ty: "leading_token ''stars'' = ''stars''" "decimal_point ''stars'' = ''stars''"
    by (simp_all add: leading_token_def is_space_def decimal_point_def)
  have fy: "py_float ''stars'' = None"
    by (simp add: py_float_eval)
  have cy: "rating_img_count ?y = Inr 2" "rating_img_label ?y = Inr (Some ''stars'')"
    by simp_all
  have "reviews_average_of ?y =
        (case py_float (decimal_point (leading_token ''stars'')) of
           Some f \<Rightarrow> Inr (Some f)
         | None \<Rightarrow> if leading_token ''stars'' = [] then Inl IndexError else Inl ValueError)"
    using reviews_average_spec[of ?y 2 "''stars''"] cy p by blast
  then have y: "reviews_average_of ?y = Inl ValueError"
    by (simp add: ty fy)
  show ?thesis using a b x y by blast
qed

subsection \<open>Text fields\<close>




subsection \<open>Query batch\<close>

lemma run_searches_append:
  "run_searches target browser i (qs @ rest) out =
     (case run_searches target browser i qs out of
        (out1, Finished) \<Rightarrow> run_searches target browser (i + length qs) rest out1
      | (out1, Aborted e) \<Rightarrow> (out1, Aborted e)
      | (out1, Stuck) \<Rightarrow> (out1, Stuck))"
  by (induction qs arbitrary: i out) (simp_all split: prod.split run_end.split)

lemma process_search_raises:
  "(fill env = Some e \<longrightarrow> process_search target env q out = (out, Aborted e)) \<and>
   (fill env = None \<longrightarrow> press_enter env = Some e \<longrightarrow>
      process_search target env q out = (out, Aborted e)) \<and>
   (fill env = None \<longrightarrow> press_enter env = None \<longrightarrow> hover env = Some e \<longrightarrow>
      process_search target env q out = (out, Aborted e))"
  by (simp add: process_search_def)

lemma example_search_any:
  "process_search 1000000 example_env q out =
     (out @ [(''output/'' @ file_stem (py_strip q) @ ''.xlsx'',
              [example_business ''Cafe'' ''1 Main St'', example_business ''Cafe'' ''1 Main St'']),
             (''output/'' @ file_stem (py_strip q) @ ''.csv'',
              [example_business ''Cafe'' ''1 Main St'', example_business ''Cafe'' ''1 Main St''])],
      Finished)"
  by (simp add: process_search_def example_env_def scrape_step_def new_business_list_def
      scrape_example_view Let_def)

lemma example_stems:
  "file_stem (py_strip ''cafe\<newline>'') = ''google_maps_data_cafe''"
  "file_stem (py_strip ''pub'') = ''google_maps_data_pub''"
  by code_simp+

lemma example_first_search:
  "run_searches 1000000 example_browser 0 [''cafe\<newline>''] [] =
     ([(''output/google_maps_data_cafe.xlsx'',
        [example_business ''Cafe'' ''1 Main St'', example_business ''Cafe'' ''1 Main St'']),
       (''output/google_maps_data_cafe.csv'',
        [example_business ''Cafe'' ''1 Main St'', example_business ''Cafe'' ''1 Main St''])],
      Finished)"
  by (simp add: example_browser_def example_search_any example_stems)

lemma example_second_search:
  "process_search 1000000 (example_browser 1) q out = (out, Aborted PlaywrightError)"
  by (simp add: example_browser_def process_search_def example_env_def)

text \<open>
  C6, amended. The queries of a batch are processed in order, each only after every
  earlier one has finished. An exception raised while a query is processed, outside
  the handler of one listing, ends the loop there: the run ends with that exception
  and the files written so far, and the subsequent queries are not processed. Such
  are the exceptions of filling the search box, of pressing Enter and of hovering
  over the first result.
\<close>

theorem run_searches_stops_at_failure:
  "(run_searches target browser i qs out = (out1, Finished) \<longrightarrow>
      run_searches target browser i (qs @ rest) out =
        run_searches target browser (i + length qs) rest out1) \<and>
   (run_searches target browser i qs out = (out1, Finished) \<longrightarrow>
    process_search target (browser (i + length qs)) q out1 = (out2, Aborted e) \<longrightarrow>
      run_searches target browser i (qs @ q # rest) out = (out2, Aborted e)) \<and>
   (fill env = Some e \<longrightarrow> process_search target env q out = (out, Aborted e)) \<and>
   (fill env = None \<longrightarrow> press_enter env = Some e \<longrightarrow>
      process_search target env q out = (out, Aborted e)) \<and>
   (fill env = None \<longrightarrow> press_enter env = None \<longrightarrow> hover env = Some e \<longrightarrow>
      process_search target env q out = (out, Aborted e))"
proof -
  have a: "run_searches target browser i (qs @ rest) out =
        run_searches target browser (i + length qs) rest out1"
    if "run_searches target browser i qs out = (out1, Finished)" for rest
    using that by (simp add: run_searches_append)
  have b: "run_searches target browser i (qs @ q # rest) out = (out2, Aborted e)"
    if "run_searches target browser i qs out = (out1, Finished)"
      "process_search target (browser (i + length qs)) q out1 = (out2, Aborted e)"
    using a[OF that(1), of "q # rest"] that(2) by simp
  show ?thesis using a b process_search_raises[of env e target q out] by blast
qed

theorem run_searches_stops_at_failure_witness:
  "run_searches 1000000 example_browser 0 [''cafe\<newline>''] [] =
     ([(''output/google_maps_data_cafe.xlsx'',
        [example_business ''Cafe'' ''1 Main St'', example_business ''Cafe'' ''1 Main St'']),
       (''output/google_maps_data_cafe.csv'',
        [example_business ''Cafe'' ''1 Main St'', example_business ''Cafe'' ''1 Main St''])],
      Finished) \<and>
   hover (example_browser 1) = Some PlaywrightError \<and>
   run_searches 1000000 example_browser 0 example_lines [] =
     ([(''output/google_maps_data_cafe.xlsx'',
        [example_business ''Cafe'' ''1 Main St'', example_business ''Cafe'' ''1 Main St'']),
       (''output/google_maps_data_cafe.csv'',
        [example_business ''Cafe'' ''1 Main St'', example_business ''Cafe'' ''1 Main St''])],
      Aborted PlaywrightError)"
proof -
  let ?b = "example_business ''Cafe'' ''1 Main St''"
  let ?out = "[(''output/google_maps_data_cafe.xlsx'', [?b, ?b]),
               (''output/google_maps_data_cafe.csv'', [?b, ?b])]"
  let ?env = "example_browser 1"
  have e: "fill ?env = None" "press_enter ?env = None" "hover ?env = Some PlaywrightError"
    by (simp_all add: example_browser_def example_env_def)
  have p1: "process_search 1000000 ?env ''bar\<newline>'' ?out =
      (?out, Aborted PlaywrightError)"
    using run_searches_stops_at_failure[where env = ?env and e = PlaywrightError
        and target = 1000000 and q = "''bar\<newline>''" and out = ?out
        and browser = example_browser and i = 0 and qs = "[]" and rest = "[]"
        and ?out1.0 = "[]" and ?out2.0 = "[]"] e
    by blast
  have idx: "0 + length [''cafe\<newline>''] = 1"
    by simp
  have p: "process_search 1000000 (example_browser (0 + length [''cafe\<newline>'']))
      ''bar\<newline>'' ?out = (?out, Aborted PlaywrightError)"
    by (simp only: idx p1)
  have "run_searches 1000000 example_browser 0
      ([''cafe\<newline>''] @ ''bar\<newline>'' # [''pub'']) [] =
      (?out, Aborted PlaywrightError)"
    using run_searches_stops_at_failure[where target = 1000000 and browser = example_browser
        and i = 0 and qs = "[''cafe\<newline>'']" and out = "[]" and ?out1.0 = ?out
        and q = "''bar\<newline>''" and ?out2.0 = ?out and e = PlaywrightError
        and rest = "[''pub'']"] example_first_search p
    by blast
  then show ?thesis
    using example_first_search e by (simp add: example_lines_def)
qed

text \<open>
  C6 as stated fails: of three queries whose second fails in the hover, the third is
  not processed, although the browser would have answered it.
\<close>

theorem failed_query_counterexample:
  "main None None (Some example_lines) example_browser =
     Scraped [(''output/google_maps_data_cafe.xlsx'',
               [example_business ''Cafe'' ''1 Main St'', example_business ''Cafe'' ''1 Main St'']),
              (''output/google_maps_data_cafe.csv'',
               [example_business ''Cafe'' ''1 Main St'', example_business ''Cafe'' ''1 Main St''])]
       (Aborted PlaywrightError) \<and>
   process_search 1000000 (example_browser 2) ''pub'' [] =
     ([(''output/google_maps_data_pub.xlsx'',
        [example_business ''Cafe'' ''1 Main St'', example_business ''Cafe'' ''1 Main St'']),
       (''output/google_maps_data_pub.csv'',
        [example_business ''Cafe'' ''1 Main St'', example_business ''Cafe'' ''1 Main St''])],
      Finished)"
proof -
  have "run_searches 1000000 example_browser 0 example_lines [] =
     ([(''output/google_maps_data_cafe.xlsx'',
        [example_business ''Cafe'' ''1 Main St'', example_business ''Cafe'' ''1 Main St'']),
       (''output/google_maps_data_cafe.csv'',
        [example_business ''Cafe'' ''1 Main St'', example_business ''Cafe'' ''1 Main St''])],
      Aborted PlaywrightError)"
    using example_first_search example_second_search
    by (simp add: example_lines_def example_browser_def example_search_any example_stems)
  moreover have "example_browser 2 = example_env"
    by (simp add: example_browser_def)
  ultimately show ?thesis
    by (simp add: main_def effective_total_def example_lines_def example_search_any example_stems)
qed

subsection \<open>Missing search\<close>

text \<open>
  C7. Without a search argument (or with an empty one) and without lines in
  \<open>input.txt\<close> (absent or empty), \<open>main\<close> prints the error message and leaves
  through \<open>sys.exit()\<close> before any browser work. \<open>sys.exit\<close> is given no argument,
  so the exit status is 0.
\<close>

theorem no_search_exits_with_status_zero:
  "main None total_arg None browser = SystemExit [no_search_message] None \<and>
   main None total_arg (Some []) browser = SystemExit [no_search_message] None \<and>
   main (Some []) total_arg None browser = SystemExit [no_search_message] None \<and>
   exit_status None = 0"
  by (simp add: main_def exit_status_def)

subsection \<open>The result cap\<close>

text \<open>
  C10. A result cap of 0 is replaced by the default 1,000,000, because the default
  is substituted when the argument is falsy and not only when it is absent: with
  \<open>-t 0\<close> the whole program behaves as without \<open>-t\<close>.
\<close>

theorem total_zero_is_default:
  "effective_total (Some 0) = 1000000 \<and>
   effective_total (Some 0) = effective_total None \<and>
   main search_arg (Some 0) input_file browser = main search_arg None input_file browser"
  by (simp add: effective_total_def main_def)

end
